theory Spec2Isabelle
  imports Main
begin

section \<open>Python values, exceptions and string helpers\<close>

text \<open>
  The bot (bot.py) handles decoded JSON from the metadata provider without checking its
  shape, so the model keeps the dynamic values: a decoded JSON document is a \<open>json\<close>
  value, and every Python operation that can raise returns \<open>exn + 'a\<close> with \<open>Inl\<close> the
  exception. A JSON number is an \<open>int\<close> here (a float behaves like a number in every
  operation below). A \<open>JDict\<close> holds the items of a Python dict, whose keys are distinct.
  Strings are byte lists (UTF-8); the delimiters the code looks for are ASCII.
\<close>

datatype exn = TypeError | AttributeError | KeyError | IndexError | ProviderError | DownloadError

datatype json =
    JNull
  | JBool bool
  | JInt int
  | JStr string
  | JList "json list"
  | JDict "(string \<times> json) list"

definition bnd :: "exn + 'a \<Rightarrow> ('a \<Rightarrow> exn + 'b) \<Rightarrow> exn + 'b" where
  "bnd m f = (case m of Inl e \<Rightarrow> Inl e | Inr x \<Rightarrow> f x)"

fun is_prefix :: "string \<Rightarrow> string \<Rightarrow> bool" where
  "is_prefix [] ys = True"
| "is_prefix (x # xs) [] = False"
| "is_prefix (x # xs) (y # ys) = (x = y \<and> is_prefix xs ys)"

fun is_substring :: "string \<Rightarrow> string \<Rightarrow> bool" where
  "is_substring p [] = (p = [])"
| "is_substring p (c # cs) = (is_prefix p (c # cs) \<or> is_substring p cs)"

text \<open>\<^verbatim>\<open>k in v\<close> for a string \<open>k\<close>: key of a dict, element of a list, substring of a string.\<close>

fun py_in :: "string \<Rightarrow> json \<Rightarrow> exn + bool" where
  "py_in k (JDict kvs) = Inr (k \<in> fst ` set kvs)"
| "py_in k (JList xs) = Inr (JStr k \<in> set xs)"
| "py_in k (JStr s) = Inr (is_substring k s)"
| "py_in k v = Inl TypeError"

text \<open>\<^verbatim>\<open>v[k]\<close> for a string \<open>k\<close>: only a dict can be indexed by a string.\<close>

fun py_getitem :: "json \<Rightarrow> string \<Rightarrow> exn + json" where
  "py_getitem (JDict kvs) k = (case map_of kvs k of None \<Rightarrow> Inl KeyError | Some x \<Rightarrow> Inr x)"
| "py_getitem v k = Inl TypeError"

text \<open>\<^verbatim>\<open>v.get(k, d)\<close>: only a dict has the method.\<close>

fun py_get :: "json \<Rightarrow> string \<Rightarrow> json \<Rightarrow> exn + json" where
  "py_get (JDict kvs) k d = Inr (case map_of kvs k of None \<Rightarrow> d | Some x \<Rightarrow> x)"
| "py_get v k d = Inl AttributeError"

text \<open>\<^verbatim>\<open>isinstance(v, dict)\<close>.\<close>

fun is_dict :: "json \<Rightarrow> bool" where
  "is_dict (JDict kvs) = True"
| "is_dict v = False"

text \<open>Truth value of a value in \<^verbatim>\<open>if v:\<close>.\<close>

fun py_truthy :: "json \<Rightarrow> bool" where
  "py_truthy JNull = False"
| "py_truthy (JBool b) = b"
| "py_truthy (JInt n) = (n \<noteq> 0)"
| "py_truthy (JStr s) = (s \<noteq> [])"
| "py_truthy (JList xs) = (xs \<noteq> [])"
| "py_truthy (JDict kvs) = (kvs \<noteq> [])"

text \<open>The elements \<^verbatim>\<open>enumerate(v, 1)\<close> runs over: a dict yields its keys, a string its characters.\<close>

fun py_iter :: "json \<Rightarrow> exn + json list" where
  "py_iter (JList xs) = Inr xs"
| "py_iter (JStr s) = Inr (map (\<lambda>c. JStr [c]) s)"
| "py_iter (JDict kvs) = Inr (map (\<lambda>kv. JStr (fst kv)) kvs)"
| "py_iter v = Inl TypeError"

text \<open>\<^verbatim>\<open>v[0]\<close>.\<close>

fun py_first :: "json \<Rightarrow> exn + json" where
  "py_first (JList []) = Inl IndexError"
| "py_first (JList (x # xs)) = Inr x"
| "py_first (JStr []) = Inl IndexError"
| "py_first (JStr (c # cs)) = Inr (JStr [c])"
| "py_first (JDict kvs) = Inl KeyError"
| "py_first v = Inl TypeError"

text \<open>
  \<^verbatim>\<open>s.split(c, 1)\<close>: at most one split, at the first occurrence of the separator \<open>c\<close>;
  the result always has one or two elements.
\<close>

definition split1 :: "char \<Rightarrow> string \<Rightarrow> string list" where
  "split1 c s =
     (if c \<in> set s then [takeWhile (\<lambda>x. x \<noteq> c) s, tl (dropWhile (\<lambda>x. x \<noteq> c) s)] else [s])"

text \<open>\<^verbatim>\<open>s.rsplit(c, 1)[0]\<close>: the text before the last occurrence of \<open>c\<close>, or all of \<open>s\<close>.\<close>

definition rsplit1_head :: "char \<Rightarrow> string \<Rightarrow> string" where
  "rsplit1_head c s =
     (if c \<in> set s then rev (tl (dropWhile (\<lambda>x. x \<noteq> c) (rev s))) else s)"

text \<open>\<^verbatim>\<open>' '.join(args)\<close>.\<close>

fun join_space :: "string list \<Rightarrow> string" where
  "join_space [] = []"
| "join_space [a] = a"
| "join_space (a # b # bs) = a @ CHR '' '' # join_space (b # bs)"

text \<open>
  \<^verbatim>\<open>s.strip()\<close> on the ASCII whitespace characters (space, tab, line feed, vertical tab,
  form feed, carriage return and the separators 0x1c to 0x1f).
\<close>

definition is_space :: "char \<Rightarrow> bool" where
  "is_space c = (c \<in> {CHR '' '', CHR 0x09, CHR 0x0A, CHR 0x0B, CHR 0x0C, CHR 0x0D,
                       CHR 0x1C, CHR 0x1D, CHR 0x1E, CHR 0x1F})"

definition strip :: "string \<Rightarrow> string" where
  "strip s = rev (dropWhile is_space (rev (dropWhile is_space s)))"

section \<open>Collaborators and state\<close>

text \<open>
  What the bot calls and cannot be read from bot.py is a parameter of the model:
  \<^item> \<open>http_get\<close>: the decoded body of \<^verbatim>\<open>session.get(LASTFM_API_URL, params=...)\<close>, or the
    exception the request or the decoding raises;
  \<^item> \<open>ydl_prepare\<close>: for the search string given to \<^verbatim>\<open>extract_info\<close>, the file name
    \<^verbatim>\<open>prepare_filename\<close> returns, or the exception raised inside the \<^verbatim>\<open>with\<close> block;
    \<open>ydl_written\<close>: the files that run leaves in the scratch directory;
  \<^item> \<open>audio_send\<close>: whether opening the file and \<^verbatim>\<open>reply_audio\<close> go through (\<open>False\<close>: one
    of them raises);
  \<^item> \<open>rand\<close>: the draw of \<^verbatim>\<open>random.choice\<close>;
  \<^item> \<open>py_str\<close>: Python's \<^verbatim>\<open>str()\<close> of a value that is not a string, used by f-strings.
  Text replies and the SQLite calls are taken to succeed.
\<close>

datatype pval = PStr string | PInt int

record env =
  api_key :: string
  http_get :: "(string \<times> pval) list \<Rightarrow> exn + json"
  ydl_prepare :: "string \<Rightarrow> exn + string"
  ydl_written :: "string \<Rightarrow> string set"
  audio_send :: "string \<Rightarrow> bool"
  rand :: nat
  py_str :: "json \<Rightarrow> string"

text \<open>
  Outbound messages. The texts of bot.py are Russian sentences; each is a constructor
  here, carrying what the handler formats into it.
\<close>

datatype reply =
    Searching
  | SearchResults "(json \<times> json) list"
  | Downloading
  | Audio string string string
  | SendFailed
  | NotFound
  | AdMessage nat
  | SimilarUsage
  | SimilarBadFormat
  | SimilarSearching
  | SimilarResults string string "(json \<times> json) list"
  | SimilarNotFound

text \<open>
  A row of table \<^verbatim>\<open>users\<close> (without \<^verbatim>\<open>created_at\<close>); a row of \<^verbatim>\<open>downloads\<close> is
  (user id, track name, artist), in insertion order. \<open>files\<close> are the paths that exist,
  \<open>outbox\<close> the messages sent so far, \<open>acquired\<close> the queries \<^verbatim>\<open>download_audio\<close> was called
  with.
\<close>

record user_row =
  username :: string
  mode :: string
  interaction_count :: int

record state =
  users :: "int \<rightharpoonup> user_row"
  downloads :: "(int \<times> string \<times> string) list"
  files :: "string set"
  outbox :: "reply list"
  acquired :: "string list"

datatype outcome = Done | Raised exn

definition send :: "reply \<Rightarrow> state \<Rightarrow> state" where
  "send r s = s\<lparr>outbox := outbox s @ [r]\<rparr>"

section \<open>Database (bot.py, lines 42-137)\<close>

definition get_user :: "state \<Rightarrow> int \<Rightarrow> user_row option" where
  "get_user s user_id = users s user_id"

text \<open>\<^verbatim>\<open>INSERT OR IGNORE\<close>: the defaults of the schema fill mode and counter.\<close>

definition create_user :: "state \<Rightarrow> int \<Rightarrow> string \<Rightarrow> state" where
  "create_user s user_id name =
     (case users s user_id of
        Some r \<Rightarrow> s
      | None \<Rightarrow> s\<lparr>users := (users s)(user_id \<mapsto>
                  \<lparr>username = name, mode = ''basic'', interaction_count = 0\<rparr>)\<rparr>)"

definition update_mode :: "state \<Rightarrow> int \<Rightarrow> string \<Rightarrow> state" where
  "update_mode s user_id m =
     (case users s user_id of
        Some r \<Rightarrow> s\<lparr>users := (users s)(user_id \<mapsto> r\<lparr>mode := m\<rparr>)\<rparr>
      | None \<Rightarrow> s)"

text \<open>
  \<^verbatim>\<open>interaction_count + 1\<close> as SQLite computes it. The column is a 64-bit signed INTEGER;
  the sum that leaves that range (at \<open>2^63 - 1\<close>) is stored as the REAL
  9.223372036854776e+18, which is \<open>2^63\<close>, and a REAL of that size is left unchanged by
  \<^verbatim>\<open>+ 1\<close>. The model keeps the number: a value outside the 64-bit range stands for the
  REAL of that value. Python then reads a float whose value is that whole number, on which
  \<^verbatim>\<open>> 0\<close> and \<^verbatim>\<open>% 10\<close> give what they give on the integer.
\<close>

definition sql_add_one :: "int \<Rightarrow> int" where
  "sql_add_one c = (if - (2 ^ 63) \<le> c \<and> c \<le> 2 ^ 63 - 1 then c + 1 else c)"

text \<open>
  \<^verbatim>\<open>increment_interaction\<close>: the UPDATE changes the row when there is one; the SELECT then
  reads it back, and \<^verbatim>\<open>cursor.fetchone()[0]\<close> raises TypeError when it found no row
  (before the commit, so nothing was changed).
\<close>

definition increment_interaction :: "state \<Rightarrow> int \<Rightarrow> exn + (int \<times> state)" where
  "increment_interaction s user_id =
     (let s' = (case users s user_id of
                  Some r \<Rightarrow> s\<lparr>users := (users s)(user_id \<mapsto>
                              r\<lparr>interaction_count := sql_add_one (interaction_count r)\<rparr>)\<rparr>
                | None \<Rightarrow> s)
      in case users s' user_id of
           None \<Rightarrow> Inl TypeError
         | Some r \<Rightarrow> Inr (interaction_count r, s'))"

definition add_download :: "state \<Rightarrow> int \<Rightarrow> string \<Rightarrow> string \<Rightarrow> state" where
  "add_download s user_id track_name artist =
     s\<lparr>downloads := downloads s @ [(user_id, track_name, artist)]\<rparr>"

section \<open>LastFMClient (bot.py, lines 143-215)\<close>

text \<open>
  Each method is a \<^verbatim>\<open>try\<close> block whose body either returns a value, falls through the
  \<^verbatim>\<open>if\<close> (\<open>None\<close>) or raises; the method returns \<^verbatim>\<open>[]\<close> in the last two cases.
\<close>

definition search_track_try :: "exn + json \<Rightarrow> exn + json option" where
  "search_track_try response =
     bnd response (\<lambda>data.
     bnd (py_in ''results'' data) (\<lambda>has_results.
     if \<not> has_results then Inr None else
     bnd (py_getitem data ''results'') (\<lambda>results.
     bnd (py_in ''trackmatches'' results) (\<lambda>has_matches.
     if \<not> has_matches then Inr None else
     bnd (py_getitem results ''trackmatches'') (\<lambda>trackmatches.
     bnd (py_get trackmatches ''track'' (JList [])) (\<lambda>tracks.
     Inr (Some (if is_dict tracks then JList [tracks] else tracks))))))))"

definition search_track :: "env \<Rightarrow> string \<Rightarrow> int \<Rightarrow> json" where
  "search_track e query limit =
     (let params = [(''method'', PStr ''track.search''), (''track'', PStr query),
                    (''api_key'', PStr (api_key e)), (''format'', PStr ''json''),
                    (''limit'', PInt limit)]
      in case search_track_try (http_get e params) of
           Inr (Some tracks) \<Rightarrow> tracks
         | Inr None \<Rightarrow> JList []
         | Inl ex \<Rightarrow> JList [])"

definition get_similar_tracks_try :: "exn + json \<Rightarrow> exn + json option" where
  "get_similar_tracks_try response =
     bnd response (\<lambda>data.
     bnd (py_in ''similartracks'' data) (\<lambda>has_similar.
     if \<not> has_similar then Inr None else
     bnd (py_getitem data ''similartracks'') (\<lambda>similartracks.
     bnd (py_in ''track'' similartracks) (\<lambda>has_track.
     if \<not> has_track then Inr None else
     bnd (py_getitem similartracks ''track'') (\<lambda>tracks.
     Inr (Some (if is_dict tracks then JList [tracks] else tracks)))))))"

definition get_similar_tracks :: "env \<Rightarrow> string \<Rightarrow> string \<Rightarrow> int \<Rightarrow> json" where
  "get_similar_tracks e artist track limit =
     (let params = [(''method'', PStr ''track.getSimilar''), (''artist'', PStr artist),
                    (''track'', PStr track), (''api_key'', PStr (api_key e)),
                    (''format'', PStr ''json''), (''limit'', PInt limit)]
      in case get_similar_tracks_try (http_get e params) of
           Inr (Some tracks) \<Rightarrow> tracks
         | Inr None \<Rightarrow> JList []
         | Inl ex \<Rightarrow> JList [])"

definition get_top_tracks_try :: "exn + json \<Rightarrow> exn + json option" where
  "get_top_tracks_try response =
     bnd response (\<lambda>data.
     bnd (py_in ''tracks'' data) (\<lambda>has_tracks.
     if \<not> has_tracks then Inr None else
     bnd (py_getitem data ''tracks'') (\<lambda>tracks.
     bnd (py_in ''track'' tracks) (\<lambda>has_track.
     if \<not> has_track then Inr None else
     bnd (py_getitem tracks ''track'') (\<lambda>track.
     Inr (Some track))))))"

definition get_top_tracks :: "env \<Rightarrow> int \<Rightarrow> json" where
  "get_top_tracks e limit =
     (let params = [(''method'', PStr ''chart.getTopTracks''), (''api_key'', PStr (api_key e)),
                    (''format'', PStr ''json''), (''limit'', PInt limit)]
      in case get_top_tracks_try (http_get e params) of
           Inr (Some tracks) \<Rightarrow> tracks
         | Inr None \<Rightarrow> JList []
         | Inl ex \<Rightarrow> JList [])"

section \<open>Media acquisition (bot.py, lines 221-250)\<close>

text \<open>
  \<^verbatim>\<open>download_audio\<close> searches for \<^verbatim>\<open>ytsearch1:<query>\<close>, and returns the prepared file name
  with its extension replaced by \<^verbatim>\<open>.mp3\<close>, or \<^verbatim>\<open>None\<close> when anything raised. It does not
  look whether the file is there.
\<close>

definition download_audio :: "env \<Rightarrow> string \<Rightarrow> state \<Rightarrow> string option \<times> state" where
  "download_audio e query s =
     (let target = ''ytsearch1:'' @ query;
          s' = s\<lparr>files := files s \<union> ydl_written e target, acquired := acquired s @ [query]\<rparr>
      in case ydl_prepare e target of
           Inl ex \<Rightarrow> (None, s')
         | Inr filename \<Rightarrow> (Some (rsplit1_head CHR ''.'' filename @ ''.mp3''), s'))"

section \<open>Promotional cadence\<close>

text \<open>
  \<^verbatim>\<open>should_show_ad\<close> (bot.py, lines 253-255). Python integers are unbounded and
  \<^verbatim>\<open>%\<close> with a positive divisor is the floored remainder, which is \<open>mod\<close> on \<open>int\<close>.
\<close>

definition should_show_ad :: "int \<Rightarrow> bool" where
  "should_show_ad n = (n > 0 \<and> n mod 10 = 0)"

text \<open>
  \<^verbatim>\<open>AD_MESSAGES\<close> has three entries; \<^verbatim>\<open>random.choice\<close> picks one of them.
\<close>

definition AD_MESSAGES :: "reply list" where
  "AD_MESSAGES = [AdMessage 0, AdMessage 1, AdMessage 2]"

definition random_choice :: "env \<Rightarrow> reply list \<Rightarrow> reply" where
  "random_choice e xs = xs ! (rand e mod length xs)"

text \<open>The last three lines of both handlers: \<^verbatim>\<open>if should_show_ad(count): reply_text(...)\<close>.\<close>

definition show_ad :: "env \<Rightarrow> int \<Rightarrow> state \<Rightarrow> state" where
  "show_ad e n s = (if should_show_ad n then send (random_choice e AD_MESSAGES) s else s)"

section \<open>Free-text messages (bot.py, lines 426-501)\<close>

text \<open>A value inside an f-string: a string stands for itself.\<close>

definition fmt :: "env \<Rightarrow> json \<Rightarrow> string" where
  "fmt e v = (case v of JStr x \<Rightarrow> x | _ \<Rightarrow> py_str e v)"

text \<open>The loop that lists the search results (lines 449-452): artist and name of each.\<close>

fun result_lines :: "json list \<Rightarrow> exn + (json \<times> json) list" where
  "result_lines [] = Inr []"
| "result_lines (track # rest) =
     bnd (py_get track ''artist'' (JStr ''Unknown'')) (\<lambda>artist.
     bnd (py_get track ''name'' (JStr ''Unknown'')) (\<lambda>name.
     bnd (result_lines rest) (\<lambda>ls. Inr ((artist, name) # ls))))"

text \<open>
  Lines 443-464: the download query. In advanced mode with a true search result the
  results are listed and the query is built from the first of them; in every other case
  it is the text of the message.
\<close>

definition search_phase :: "env \<Rightarrow> string \<Rightarrow> string \<Rightarrow> state \<Rightarrow> (exn + string) \<times> state" where
  "search_phase e m query s =
     (if m = ''advanced'' then
        (let tracks = search_track e query 5 in
         if py_truthy tracks then
           (case bnd (py_iter tracks) result_lines of
              Inl ex \<Rightarrow> (Inl ex, s)
            | Inr ls \<Rightarrow>
                (bnd (py_first tracks) (\<lambda>first_track.
                 bnd (py_get first_track ''artist'' (JStr ''Unknown'')) (\<lambda>artist.
                 bnd (py_get first_track ''name'' (JStr ''Unknown'')) (\<lambda>name.
                 Inr (fmt e artist @ '' '' @ fmt e name)))),
                 send (SearchResults ls) s))
         else (Inr query, s))
      else (Inr query, s))"

text \<open>
  Lines 469-496: acquisition and delivery. The history entry and the removal of the file
  are inside the \<^verbatim>\<open>try\<close>, after the send; the \<^verbatim>\<open>except\<close> branch only reports the error.
\<close>

definition acquire_and_deliver :: "env \<Rightarrow> int \<Rightarrow> string \<Rightarrow> state \<Rightarrow> state" where
  "acquire_and_deliver e user_id download_query s =
     (case download_audio e download_query s of
        (file_path, s1) \<Rightarrow>
          (case file_path of
             None \<Rightarrow> send NotFound s1
           | Some p \<Rightarrow>
               if p \<noteq> [] \<and> p \<in> files s1 then
                 (if audio_send e p then
                    (let s2 = send (Audio p download_query ''MelodyForge'') s1;
                         parts = split1 CHR '' '' download_query;
                         artist = (if length parts > 0 then parts ! 0 else ''Unknown'');
                         track = (if length parts > 1 then parts ! 1 else download_query);
                         s3 = add_download s2 user_id track artist
                     in s3\<lparr>files := files s3 - {p}\<rparr>)
                  else send SendFailed s1)
               else send NotFound s1))"

text \<open>
  \<open>name\<close> is \<^verbatim>\<open>update.effective_user.username or update.effective_user.first_name\<close>,
  \<open>query\<close> is \<^verbatim>\<open>update.message.text\<close>.
\<close>

definition message_handler :: "env \<Rightarrow> int \<Rightarrow> string \<Rightarrow> string \<Rightarrow> state \<Rightarrow> outcome \<times> state" where
  "message_handler e user_id name query s0 =
     (let s1 = (case get_user s0 user_id of
                  None \<Rightarrow> create_user s0 user_id name
                | Some u \<Rightarrow> s0);
          m = (case get_user s1 user_id of Some u \<Rightarrow> mode u | None \<Rightarrow> ''basic'')
      in case increment_interaction s1 user_id of
           Inl ex \<Rightarrow> (Raised ex, s1)
         | Inr (n, s2) \<Rightarrow>
             (case search_phase e m query (send Searching s2) of
                (Inl ex, s3) \<Rightarrow> (Raised ex, s3)
              | (Inr download_query, s3) \<Rightarrow>
                  (Done, show_ad e n
                           (acquire_and_deliver e user_id download_query (send Downloading s3)))))"

section \<open>The /similar command (bot.py, lines 377-423)\<close>

text \<open>The loop of lines 408-411: \<^verbatim>\<open>similar.get('artist', {}).get('name', 'Unknown')\<close>.\<close>

fun similar_lines :: "json list \<Rightarrow> exn + (json \<times> json) list" where
  "similar_lines [] = Inr []"
| "similar_lines (similar # rest) =
     bnd (py_get similar ''artist'' (JDict [])) (\<lambda>a.
     bnd (py_get a ''name'' (JStr ''Unknown'')) (\<lambda>s_artist.
     bnd (py_get similar ''name'' (JStr ''Unknown'')) (\<lambda>s_name.
     bnd (similar_lines rest) (\<lambda>ls. Inr ((s_artist, s_name) # ls)))))"

text \<open>\<open>args\<close> is \<^verbatim>\<open>context.args\<close>, the words after the command.\<close>

definition similar_command :: "env \<Rightarrow> int \<Rightarrow> string list \<Rightarrow> state \<Rightarrow> outcome \<times> state" where
  "similar_command e user_id args s =
     (if args = [] then (Done, send SimilarUsage s)
      else
        (let query = join_space args in
         if CHR ''-'' \<in> set query then
           (let parts = split1 CHR ''-'' query;
                artist = strip (parts ! 0);
                track = strip (parts ! 1);
                s1 = send SimilarSearching s;
                similar_tracks = get_similar_tracks e artist track 8
            in case (if py_truthy similar_tracks then
                       (case bnd (py_iter similar_tracks) similar_lines of
                          Inl ex \<Rightarrow> Inl ex
                        | Inr ls \<Rightarrow> Inr (send (SimilarResults artist track ls) s1))
                     else Inr (send SimilarNotFound s1)) of
                 Inl ex \<Rightarrow> (Raised ex, s1)
               | Inr s2 \<Rightarrow>
                   (case increment_interaction s2 user_id of
                      Inl ex \<Rightarrow> (Raised ex, s2)
                    | Inr (n, s3) \<Rightarrow> (Done, show_ad e n s3)))
         else (Done, send SimilarBadFormat s)))"

section \<open>The split rule as the specification words it\<close>

text \<open>
  The specification describes the history entry by a whitespace split: the first
  whitespace-separated token is the artist and the remainder the title, with
  \<^verbatim>\<open>Unknown\<close> for a missing artist and the whole query for a missing title. The
  function below follows those words, for comparison with lines 481-483 of bot.py.
\<close>

definition spec_whitespace_split :: "string \<Rightarrow> string \<times> string" where
  "spec_whitespace_split q =
     (let t = dropWhile is_space q;
          token = takeWhile (\<lambda>c. \<not> is_space c) t;
          remainder = dropWhile is_space (dropWhile (\<lambda>c. \<not> is_space c) t)
      in (if token = [] then ''Unknown'' else token, if remainder = [] then q else remainder))"

section \<open>Concrete collaborators and states\<close>

text \<open>A provider that is down, a download that fails, a transport that delivers.\<close>

definition env_offline :: env where
  "env_offline =
     \<lparr>api_key = ''key'', http_get = (\<lambda>params. Inl ProviderError),
      ydl_prepare = (\<lambda>target. Inl DownloadError), ydl_written = (\<lambda>target. {}),
      audio_send = (\<lambda>p. True), rand = 0, py_str = (\<lambda>v. [])\<rparr>"

text \<open>A download that writes \<^verbatim>\<open>/tmp/song.mp3\<close> after preparing \<^verbatim>\<open>/tmp/song.webm\<close>.\<close>

definition env_download :: env where
  "env_download =
     env_offline\<lparr>ydl_prepare := (\<lambda>target. Inr ''/tmp/song.webm''),
                 ydl_written := (\<lambda>target. {''/tmp/song.mp3''})\<rparr>"

text \<open>The same download, with a transport that fails to send the audio.\<close>

definition env_send_fails :: env where
  "env_send_fails = env_download\<lparr>audio_send := (\<lambda>p. False)\<rparr>"

text \<open>A download that returns a file name and leaves no file.\<close>

definition env_no_file :: env where
  "env_no_file = env_offline\<lparr>ydl_prepare := (\<lambda>target. Inr ''/tmp/song.webm'')\<rparr>"

definition hit_beatles :: json where
  "hit_beatles = JDict [(''name'', JStr ''Yesterday''), (''artist'', JStr ''The Beatles'')]"

definition hit_boyz :: json where
  "hit_boyz = JDict [(''name'', JStr ''Yesterday''), (''artist'', JStr ''Boyz II Men'')]"

text \<open>A provider whose \<^verbatim>\<open>track.search\<close> answers with two hits, whatever limit is asked.\<close>

definition search_two_hits :: json where
  "search_two_hits =
     JDict [(''results'', JDict [(''trackmatches'', JDict [(''track'', JList [hit_beatles, hit_boyz])])])]"

definition env_two_hits :: env where
  "env_two_hits =
     env_download\<lparr>http_get := (\<lambda>params. Inr search_two_hits)\<rparr>"

text \<open>A provider whose \<^verbatim>\<open>chart.getTopTracks\<close> answers with one track object, not a list.\<close>

definition top_single :: json where
  "top_single =
     JDict [(''tracks'', JDict [(''track'',
        JDict [(''name'', JStr ''Yesterday''), (''artist'', JDict [(''name'', JStr ''The Beatles'')])])])]"

definition env_top_single :: env where
  "env_top_single = env_offline\<lparr>http_get := (\<lambda>params. Inr top_single)\<rparr>"

text \<open>A provider whose \<^verbatim>\<open>track.getSimilar\<close> answers with one similar track.\<close>

definition similar_one :: json where
  "similar_one =
     JDict [(''similartracks'', JDict [(''track'',
        JList [JDict [(''name'', JStr ''Clocks''), (''artist'', JDict [(''name'', JStr ''Coldplay'')])]])])]"

definition env_similar_one :: env where
  "env_similar_one = env_offline\<lparr>http_get := (\<lambda>params. Inr similar_one)\<rparr>"

definition s_empty :: state where
  "s_empty = \<lparr>users = Map.empty, downloads = [], files = {}, outbox = [], acquired = []\<rparr>"

definition row_basic :: user_row where
  "row_basic = \<lparr>username = ''ann'', mode = ''basic'', interaction_count = 0\<rparr>"

definition row_advanced :: user_row where
  "row_advanced = \<lparr>username = ''ann'', mode = ''advanced'', interaction_count = 9\<rparr>"

definition s_basic :: state where
  "s_basic = s_empty\<lparr>users := [1 \<mapsto> row_basic]\<rparr>"

definition s_advanced :: state where
  "s_advanced = s_empty\<lparr>users := [1 \<mapsto> row_advanced]\<rparr>"

text \<open>A message of two lines: the words are separated by a line feed, not by a space.\<close>

definition two_lines :: string where
  "two_lines = ''Imagine'' @ [CHR 0x0A] @ ''Dragons''"

text \<open>The final states of three runs of \<^verbatim>\<open>message_handler\<close> for user 1 of \<open>s_basic\<close>.\<close>

definition sf_no_file :: state where
  "sf_no_file =
     \<lparr>users = [1 \<mapsto> row_basic\<lparr>interaction_count := 1\<rparr>], downloads = [], files = {},
      outbox = [Searching, Downloading, NotFound], acquired = [''Yesterday'']\<rparr>"

definition sf_send_fails :: state where
  "sf_send_fails =
     \<lparr>users = [1 \<mapsto> row_basic\<lparr>interaction_count := 1\<rparr>], downloads = [],
      files = {''/tmp/song.mp3''},
      outbox = [Searching, Downloading, SendFailed], acquired = [''Yesterday'']\<rparr>"

definition sf_believer :: state where
  "sf_believer =
     \<lparr>users = [1 \<mapsto> row_basic\<lparr>interaction_count := 1\<rparr>],
      downloads = [(1, ''Dragons Believer'', ''Imagine'')], files = {},
      outbox = [Searching, Downloading,
                Audio ''/tmp/song.mp3'' ''Imagine Dragons Believer'' ''MelodyForge''],
      acquired = [''Imagine Dragons Believer'']\<rparr>"

section \<open>Properties\<close>

subsection \<open>Auxiliary facts\<close>

lemma key_in_items: "map_of d k = Some v \<Longrightarrow> k \<in> fst ` set d"
  by (simp add: domI dom_map_of_conv_image_fst[symmetric])

lemma search_track_try_found:
  assumes "map_of d ''results'' = Some (JDict r)"
      and "map_of r ''trackmatches'' = Some (JDict tm)"
      and "map_of tm ''track'' = Some tracks"
  shows "search_track_try (Inr (JDict d)) = Inr (Some (if is_dict tracks then JList [tracks] else tracks))"
  using assms key_in_items[OF assms(1)] key_in_items[OF assms(2)] by (simp add: search_track_try_def bnd_def)

lemma get_similar_tracks_try_found:
  assumes "map_of d ''similartracks'' = Some (JDict st)"
      and "map_of st ''track'' = Some tracks"
  shows "get_similar_tracks_try (Inr (JDict d)) = Inr (Some (if is_dict tracks then JList [tracks] else tracks))"
  using assms key_in_items[OF assms(1)] key_in_items[OF assms(2)] by (simp add: get_similar_tracks_try_def bnd_def)

lemma get_top_tracks_try_found:
  assumes "map_of d ''tracks'' = Some (JDict st)"
      and "map_of st ''track'' = Some tracks"
  shows "get_top_tracks_try (Inr (JDict d)) = Inr (Some tracks)"
  using assms key_in_items[OF assms(1)] key_in_items[OF assms(2)] by (simp add: get_top_tracks_try_def bnd_def)

lemma result_lines_dicts: "list_all is_dict xs \<Longrightarrow> \<exists>ls. result_lines xs = Inr ls"
proof (induction xs)
  case Nil
  then show ?case by simp
next
  case (Cons x xs)
  then obtain ls where "result_lines xs = Inr ls" by auto
  moreover from Cons.prems obtain kvs where "x = JDict kvs" by (cases x) auto
  ultimately show ?case by (simp add: bnd_def)
qed

lemma search_phase_frame:
  "search_phase e m q s = (r, s') \<Longrightarrow>
     users s' = users s \<and> downloads s' = downloads s \<and> files s' = files s \<and> acquired s' = acquired s"
  by (auto simp: search_phase_def Let_def send_def split: if_splits sum.splits)

lemma increment_frame:
  "increment_interaction s uid = Inr (n, s') \<Longrightarrow>
     downloads s' = downloads s \<and> files s' = files s \<and> acquired s' = acquired s \<and> outbox s' = outbox s"
  by (auto simp: increment_interaction_def Let_def split: option.splits)

lemma create_user_frame:
  "downloads (create_user s uid name) = downloads s \<and> files (create_user s uid name) = files s
   \<and> acquired (create_user s uid name) = acquired s \<and> outbox (create_user s uid name) = outbox s"
  by (simp add: create_user_def split: option.splits)

lemma acquired_show_ad: "acquired (show_ad e n s) = acquired s"
  by (simp add: show_ad_def send_def)

lemma downloads_show_ad: "downloads (show_ad e n s) = downloads s"
  by (simp add: show_ad_def send_def)

lemma files_show_ad: "files (show_ad e n s) = files s"
  by (simp add: show_ad_def send_def)

lemma acquired_acquire_and_deliver:
  "acquired (acquire_and_deliver e uid dq s) = acquired s @ [dq]"
  by (simp add: acquire_and_deliver_def download_audio_def Let_def send_def add_download_def
           split: sum.splits option.splits)

lemma search_phase_basic: "m \<noteq> ''advanced'' \<Longrightarrow> search_phase e m q s = (Inr q, s)"
  by (simp add: search_phase_def)

lemma search_phase_empty:
  "search_track e q 5 = JList [] \<Longrightarrow> search_phase e m q s = (Inr q, s)"
  by (simp add: search_phase_def)

lemma search_phase_hit:
  assumes "search_track e q 5 = JList (t # ts)"
      and "list_all is_dict (t # ts)"
      and "py_get t ''artist'' (JStr ''Unknown'') = Inr a"
      and "py_get t ''name'' (JStr ''Unknown'') = Inr n"
  shows "\<exists>ls. search_phase e ''advanced'' q s =
                (Inr (fmt e a @ '' '' @ fmt e n), send (SearchResults ls) s)"
proof -
  from result_lines_dicts[OF assms(2)] obtain ls where "result_lines (t # ts) = Inr ls" by blast
  with assms(1,3,4) show ?thesis
    by (auto simp: search_phase_def bnd_def)
qed

lemma message_handler_known_user:
  assumes "users s0 uid = Some r"
      and "search_phase e (mode r) q
             (send Searching (s0\<lparr>users := (users s0)(uid \<mapsto> r\<lparr>interaction_count := sql_add_one (interaction_count r)\<rparr>)\<rparr>))
           = (Inr dq, s3)"
  shows "message_handler e uid name q s0 =
           (Done, show_ad e (sql_add_one (interaction_count r))
                    (acquire_and_deliver e uid dq (send Downloading s3)))"
  using assms by (simp add: message_handler_def get_user_def increment_interaction_def Let_def)

lemma search_two_hits_result: "search_track env_two_hits q limit = JList [hit_beatles, hit_boyz]"
  by (simp add: search_track_def search_track_try_def bnd_def env_two_hits_def env_download_def
        env_offline_def search_two_hits_def)

lemma download_audio_snd:
  "snd (download_audio e dq s) =
     s\<lparr>files := files s \<union> ydl_written e (''ytsearch1:'' @ dq), acquired := acquired s @ [dq]\<rparr>"
  by (simp add: download_audio_def Let_def split: sum.splits)

lemma download_audio_fst:
  "fst (download_audio e dq s) =
     (case ydl_prepare e (''ytsearch1:'' @ dq) of
        Inl ex \<Rightarrow> None
      | Inr filename \<Rightarrow> Some (rsplit1_head CHR ''.'' filename @ ''.mp3''))"
  by (simp add: download_audio_def Let_def split: sum.splits)

lemma acquire_absent:
  "fst (download_audio e dq s) = None \<Longrightarrow>
     acquire_and_deliver e uid dq s = send NotFound (snd (download_audio e dq s))"
  by (cases "download_audio e dq s") (simp add: acquire_and_deliver_def)

lemma acquire_missing:
  "fst (download_audio e dq s) = Some p \<Longrightarrow> p \<notin> files (snd (download_audio e dq s)) \<Longrightarrow>
     acquire_and_deliver e uid dq s = send NotFound (snd (download_audio e dq s))"
  by (cases "download_audio e dq s") (simp add: acquire_and_deliver_def)

lemma acquire_delivered:
  "fst (download_audio e dq s) = Some p \<Longrightarrow> p \<noteq> [] \<Longrightarrow> p \<in> files (snd (download_audio e dq s)) \<Longrightarrow>
   audio_send e p \<Longrightarrow>
     acquire_and_deliver e uid dq s =
       (let s1 = snd (download_audio e dq s);
            parts = split1 CHR '' '' dq
        in s1\<lparr>outbox := outbox s1 @ [Audio p dq ''MelodyForge''],
              downloads := downloads s1 @ [(uid, if length parts > 1 then parts ! 1 else dq, parts ! 0)],
              files := files s1 - {p}\<rparr>)"
  by (cases "download_audio e dq s") (simp add: acquire_and_deliver_def Let_def send_def add_download_def split1_def)

lemma split1_space:
  "CHR '' '' \<notin> set (split1 CHR '' '' dq ! 0)
   \<and> (if CHR '' '' \<in> set dq
       then dq = split1 CHR '' '' dq ! 0 @ '' '' @ split1 CHR '' '' dq ! 1 \<and> length (split1 CHR '' '' dq) = 2
       else split1 CHR '' '' dq = [dq])"
proof (cases "CHR '' '' \<in> set dq")
  case True
  then have "dropWhile (\<lambda>x. x \<noteq> CHR '' '') dq \<noteq> []" by simp
  moreover have "hd (dropWhile (\<lambda>x. x \<noteq> CHR '' '') dq) = CHR '' ''"
    using True hd_dropWhile[of "\<lambda>x. x \<noteq> CHR '' ''" dq] by auto
  ultimately have "dropWhile (\<lambda>x. x \<noteq> CHR '' '') dq = CHR '' '' # tl (dropWhile (\<lambda>x. x \<noteq> CHR '' '') dq)"
    by (metis list.collapse)
  then have "dq = takeWhile (\<lambda>x. x \<noteq> CHR '' '') dq @ CHR '' '' # tl (dropWhile (\<lambda>x. x \<noteq> CHR '' '') dq)"
    by (metis takeWhile_dropWhile_id)
  moreover have "CHR '' '' \<notin> set (takeWhile (\<lambda>x. x \<noteq> CHR '' '') dq)"
    by (auto dest: set_takeWhileD)
  ultimately show ?thesis using True by (simp add: split1_def)
next
  case False
  then show ?thesis by (simp add: split1_def)
qed


lemma search_phase_cong:
  "http_get e' = http_get e \<Longrightarrow> api_key e' = api_key e \<Longrightarrow> py_str e' = py_str e \<Longrightarrow>
     search_phase e' m q s = search_phase e m q s"
proof -
  assume h: "http_get e' = http_get e" "api_key e' = api_key e" "py_str e' = py_str e"
  then have "fmt e' = fmt e" by (auto simp: fmt_def fun_eq_iff split: json.splits)
  moreover from h have "search_track e' q 5 = search_track e q 5" by (simp add: search_track_def)
  ultimately show ?thesis by (simp only: search_phase_def)
qed

lemma show_ad_cong: "rand e' = rand e \<Longrightarrow> show_ad e' n s = show_ad e n s"
  by (simp add: show_ad_def random_choice_def)

lemma search_phase_outbox:
  "search_phase e m q s = (r, s') \<Longrightarrow> Audio a t pf \<in> set (outbox s') \<Longrightarrow>
     Audio a t pf \<in> set (outbox s)"
  by (auto simp: search_phase_def Let_def send_def split: if_splits sum.splits)

lemma message_handler_Done:
  assumes "message_handler e uid name q s0 = (Done, sf)"
  shows "\<exists>n dq sA. sf = show_ad e n (acquire_and_deliver e uid dq sA)
           \<and> files sA = files s0 \<and> downloads sA = downloads s0 \<and> acquired sA = acquired s0
           \<and> (\<forall>a t pf. Audio a t pf \<in> set (outbox sA) \<longrightarrow> Audio a t pf \<in> set (outbox s0))
           \<and> ((case users s0 uid of None \<Rightarrow> True | Some r \<Rightarrow> mode r \<noteq> ''advanced'') \<longrightarrow> dq = q)
           \<and> (\<forall>e'. http_get e' = http_get e \<and> api_key e' = api_key e \<and> py_str e' = py_str e
                  \<longrightarrow> message_handler e' uid name q s0 =
                        (Done, show_ad e' n (acquire_and_deliver e' uid dq sA)))"
proof -
  define s1 where "s1 = (case get_user s0 uid of None \<Rightarrow> create_user s0 uid name | Some u \<Rightarrow> s0)"
  define m where "m = (case get_user s1 uid of Some u \<Rightarrow> mode u | None \<Rightarrow> ''basic'')"
  have f1: "files s1 = files s0 \<and> downloads s1 = downloads s0 \<and> acquired s1 = acquired s0
            \<and> outbox s1 = outbox s0"
    by (simp add: s1_def create_user_frame split: option.splits)
  have mh: "message_handler e' uid name q s0 =
          (case increment_interaction s1 uid of
             Inl ex \<Rightarrow> (Raised ex, s1)
           | Inr (n, s2) \<Rightarrow>
               (case search_phase e' m q (send Searching s2) of
                  (Inl ex, s3) \<Rightarrow> (Raised ex, s3)
                | (Inr download_query, s3) \<Rightarrow>
                    (Done, show_ad e' n
                             (acquire_and_deliver e' uid download_query (send Downloading s3)))))" for e'
    by (simp only: message_handler_def Let_def s1_def m_def)
  from assms obtain n s2 dq s3 where
    inc: "increment_interaction s1 uid = Inr (n, s2)" and
    sp: "search_phase e m q (send Searching s2) = (Inr dq, s3)" and
    sf: "sf = show_ad e n (acquire_and_deliver e uid dq (send Downloading s3))"
    by (auto simp: mh split: sum.splits prod.splits)
  let ?sA = "send Downloading s3"
  from increment_frame[OF inc] search_phase_frame[OF sp] f1
  have fr: "files ?sA = files s0 \<and> downloads ?sA = downloads s0 \<and> acquired ?sA = acquired s0"
    by (simp add: send_def)
  have ob: "Audio a t pf \<in> set (outbox s0)" if "Audio a t pf \<in> set (outbox ?sA)" for a t pf
  proof -
    from that have "Audio a t pf \<in> set (outbox s3)" by (simp add: send_def)
    from search_phase_outbox[OF sp this] have "Audio a t pf \<in> set (outbox s2)"
      by (simp add: send_def)
    with increment_frame[OF inc] f1 show ?thesis by simp
  qed
  have basic: "dq = q" if "case users s0 uid of None \<Rightarrow> True | Some r \<Rightarrow> mode r \<noteq> ''advanced''"
  proof -
    from that have "m \<noteq> ''advanced''"
      by (auto simp: m_def s1_def get_user_def create_user_def split: option.splits)
    from search_phase_basic[OF this] sp show ?thesis by simp
  qed
  have other: "message_handler e' uid name q s0 = (Done, show_ad e' n (acquire_and_deliver e' uid dq ?sA))"
    if "http_get e' = http_get e \<and> api_key e' = api_key e \<and> py_str e' = py_str e" for e'
  proof -
    from that have "search_phase e' m q (send Searching s2) = (Inr dq, s3)"
      using sp search_phase_cong[of e' e m q "send Searching s2"] by simp
    with inc show ?thesis by (simp add: mh)
  qed
  show ?thesis
  proof (intro exI conjI impI allI)
    show "sf = show_ad e n (acquire_and_deliver e uid dq ?sA)" by (rule sf)
    show "files ?sA = files s0" using fr by simp
    show "downloads ?sA = downloads s0" using fr by simp
    show "acquired ?sA = acquired s0" using fr by simp
    show "Audio a t pf \<in> set (outbox s0)" if "Audio a t pf \<in> set (outbox ?sA)" for a t pf
      using that by (rule ob)
    show "dq = q" if "case users s0 uid of None \<Rightarrow> True | Some r \<Rightarrow> mode r \<noteq> ''advanced''"
      using that by (rule basic)
    show "message_handler e' uid name q s0 = (Done, show_ad e' n (acquire_and_deliver e' uid dq ?sA))"
      if "http_get e' = http_get e \<and> api_key e' = api_key e \<and> py_str e' = py_str e" for e'
      using that by (rule other)
  qed
qed




lemma audio_not_ad: "random_choice e AD_MESSAGES \<noteq> Audio a t pf"
proof -
  have "rand e mod 3 = 0 \<or> rand e mod 3 = 1 \<or> rand e mod 3 = 2" by arith
  then show ?thesis
    by (auto simp: random_choice_def AD_MESSAGES_def)
qed

text \<open>The definitions a concrete run unfolds.\<close>

lemmas handler_defs = message_handler_def similar_command_def search_phase_def acquire_and_deliver_def
  download_audio_def show_ad_def should_show_ad_def send_def get_user_def create_user_def increment_interaction_def
  add_download_def search_track_def search_track_try_def get_similar_tracks_def get_similar_tracks_try_def
  get_top_tracks_def get_top_tracks_try_def bnd_def split1_def rsplit1_head_def fmt_def random_choice_def AD_MESSAGES_def
  sql_add_one_def

lemma run_no_file:
  "message_handler env_no_file 1 ''ann'' ''Yesterday'' s_basic = (Done, sf_no_file)"
  by (simp add: handler_defs env_no_file_def env_offline_def s_basic_def s_empty_def row_basic_def
        sf_no_file_def)

lemma run_send_fails:
  "message_handler env_send_fails 1 ''ann'' ''Yesterday'' s_basic = (Done, sf_send_fails)"
  by (simp add: handler_defs env_send_fails_def env_download_def env_offline_def s_basic_def
        s_empty_def row_basic_def sf_send_fails_def)

lemma run_believer:
  "message_handler env_download 1 ''ann'' ''Imagine Dragons Believer'' s_basic = (Done, sf_believer)"
  by (simp add: handler_defs env_download_def env_offline_def s_basic_def
        s_empty_def row_basic_def sf_believer_def)

lemma run_two_lines:
  "message_handler env_download 1 ''ann'' two_lines s_basic =
     (Done, sf_believer\<lparr>downloads := [(1, two_lines, two_lines)],
                        outbox := [Searching, Downloading, Audio ''/tmp/song.mp3'' two_lines ''MelodyForge''],
                        acquired := [two_lines]\<rparr>)"
  by (simp add: handler_defs env_download_def env_offline_def s_basic_def
        s_empty_def row_basic_def sf_believer_def two_lines_def)

text \<open>
  A single track object in the provider's answer: \<^verbatim>\<open>search_track\<close> and
  \<^verbatim>\<open>get_similar_tracks\<close> wrap it into a list, \<^verbatim>\<open>get_top_tracks\<close> returns it as it is.
\<close>

lemma search_track_single_object:
  assumes "http_get e [(''method'', PStr ''track.search''), (''track'', PStr query),
                       (''api_key'', PStr (api_key e)), (''format'', PStr ''json''),
                       (''limit'', PInt limit)] = Inr (JDict d)"
      and "map_of d ''results'' = Some (JDict r)"
      and "map_of r ''trackmatches'' = Some (JDict tm)"
      and "map_of tm ''track'' = Some (JDict obj)"
  shows "search_track e query limit = JList [JDict obj]"
  using assms(1) search_track_try_found[OF assms(2,3,4)]
  by (simp add: search_track_def)

lemma get_similar_tracks_single_object:
  assumes "http_get e [(''method'', PStr ''track.getSimilar''), (''artist'', PStr artist),
                    (''track'', PStr track), (''api_key'', PStr (api_key e)),
                    (''format'', PStr ''json''), (''limit'', PInt limit)] = Inr (JDict d)"
      and "map_of d ''similartracks'' = Some (JDict st)"
      and "map_of st ''track'' = Some (JDict obj)"
  shows "get_similar_tracks e artist track limit = JList [JDict obj]"
  using assms(1) get_similar_tracks_try_found[OF assms(2,3)]
  by (simp add: get_similar_tracks_def)

lemma get_top_tracks_single_object:
  assumes "http_get e [(''method'', PStr ''chart.getTopTracks''), (''api_key'', PStr (api_key e)),
                    (''format'', PStr ''json''), (''limit'', PInt limit)] = Inr (JDict d)"
      and "map_of d ''tracks'' = Some (JDict st)"
      and "map_of st ''track'' = Some (JDict obj)"
  shows "get_top_tracks e limit = JDict obj"
  using assms(1) get_top_tracks_try_found[OF assms(2,3)]
  by (simp add: get_top_tracks_def)

text \<open>The counter at the end of the 64-bit range: one more increment, then none.\<close>

lemma sql_add_one_overflow:
  "sql_add_one (2 ^ 63 - 1) = 2 ^ 63 \<and> sql_add_one (2 ^ 63) = 2 ^ 63
   \<and> should_show_ad (2 ^ 63) = False"
  by (simp add: sql_add_one_def should_show_ad_def)

text \<open>
  Whatever happens after it, a free-text message leaves the user's row with the counter
  incremented once (a user without a row gets one first).
\<close>

lemma message_handler_counts_once:
  "\<exists>r'. users (snd (message_handler e uid name q s0)) uid = Some r'
        \<and> interaction_count r' =
            sql_add_one (case users s0 uid of None \<Rightarrow> 0 | Some r \<Rightarrow> interaction_count r)"
  by (auto simp: message_handler_def Let_def get_user_def create_user_def increment_interaction_def
        show_ad_def send_def acquire_and_deliver_def download_audio_def add_download_def
        dest!: search_phase_frame
        split: option.splits sum.splits prod.splits)

subsection \<open>The claims\<close>

text \<open>
  C1. For every integer interaction count \<open>c\<close>, \<open>should_show_ad c\<close> is true exactly when
  \<open>c > 0\<close> and \<open>c mod 10 = 0\<close>, that is, exactly when \<open>c\<close> is a positive multiple of ten.
\<close>

theorem should_show_ad_iff:
  "should_show_ad c = (c > 0 \<and> c mod 10 = 0)
   \<and> should_show_ad c = (\<exists>k. 0 < k \<and> c = 10 * k)"
proof -
  have "(c > 0 \<and> c mod 10 = 0) = (\<exists>k. 0 < k \<and> c = 10 * k)"
  proof
    assume h: "c > 0 \<and> c mod 10 = 0"
    then have "c = 10 * (c div 10)" by presburger
    moreover from h have "0 < c div 10" by presburger
    ultimately show "\<exists>k. 0 < k \<and> c = 10 * k" by blast
  next
    assume "\<exists>k. 0 < k \<and> c = 10 * k"
    then show "c > 0 \<and> c mod 10 = 0" by auto
  qed
  then show ?thesis by (simp add: should_show_ad_def)
qed

text \<open>
  C5. A free-text message from a user in advanced mode: when the search returns a
  non-empty sequence of track objects, the query handed to \<^verbatim>\<open>download_audio\<close> is the top
  result's artist, a space, and its title, not the text of the message; when the search
  returns the empty sequence, the query is the text of the message.
\<close>

theorem advanced_download_query:
  assumes "users s0 uid = Some r" and "mode r = ''advanced''"
  shows "(search_track e query 5 = JList (t # ts) \<and> list_all is_dict (t # ts)
            \<and> py_get t ''artist'' (JStr ''Unknown'') = Inr (JStr a)
            \<and> py_get t ''name'' (JStr ''Unknown'') = Inr (JStr n)
          \<longrightarrow> (\<exists>sf. message_handler e uid name query s0 = (Done, sf)
                    \<and> acquired sf = acquired s0 @ [a @ '' '' @ n]))
       \<and> (search_track e query 5 = JList []
          \<longrightarrow> (\<exists>sf. message_handler e uid name query s0 = (Done, sf)
                    \<and> acquired sf = acquired s0 @ [query]))"
proof (intro conjI impI)
  let ?s = "send Searching (s0\<lparr>users := (users s0)(uid \<mapsto> r\<lparr>interaction_count := sql_add_one (interaction_count r)\<rparr>)\<rparr>)"
  assume h: "search_track e query 5 = JList (t # ts) \<and> list_all is_dict (t # ts)
            \<and> py_get t ''artist'' (JStr ''Unknown'') = Inr (JStr a)
            \<and> py_get t ''name'' (JStr ''Unknown'') = Inr (JStr n)"
  then obtain ls where
    "search_phase e ''advanced'' query ?s = (Inr (fmt e (JStr a) @ '' '' @ fmt e (JStr n)), send (SearchResults ls) ?s)"
    using search_phase_hit[of e query t ts "JStr a" "JStr n" ?s] by blast
  then have sp: "search_phase e (mode r) query ?s = (Inr (a @ '' '' @ n), send (SearchResults ls) ?s)"
    using assms(2) by (simp add: fmt_def)
  show "\<exists>sf. message_handler e uid name query s0 = (Done, sf) \<and> acquired sf = acquired s0 @ [a @ '' '' @ n]"
    using message_handler_known_user[OF assms(1) sp, of name]
    by (simp add: acquired_show_ad acquired_acquire_and_deliver send_def)
next
  let ?s = "send Searching (s0\<lparr>users := (users s0)(uid \<mapsto> r\<lparr>interaction_count := sql_add_one (interaction_count r)\<rparr>)\<rparr>)"
  assume "search_track e query 5 = JList []"
  then have sp: "search_phase e (mode r) query ?s = (Inr query, ?s)"
    by (rule search_phase_empty)
  show "\<exists>sf. message_handler e uid name query s0 = (Done, sf) \<and> acquired sf = acquired s0 @ [query]"
    using message_handler_known_user[OF assms(1) sp, of name]
    by (simp add: acquired_show_ad acquired_acquire_and_deliver send_def)
qed

theorem advanced_download_query_witness:
  "\<exists>sf. message_handler env_two_hits 1 ''ann'' ''Yesterday'' s_advanced = (Done, sf)
        \<and> acquired sf = [''The Beatles Yesterday'']"
proof -
  have a: "users s_advanced 1 = Some row_advanced" by (simp add: s_advanced_def s_empty_def)
  have b: "mode row_advanced = ''advanced''" by (simp add: row_advanced_def)
  have c: "search_track env_two_hits ''Yesterday'' 5 = JList (hit_beatles # [hit_boyz])"
    by (simp add: search_two_hits_result)
  have d: "list_all is_dict (hit_beatles # [hit_boyz])"
    by (simp add: hit_beatles_def hit_boyz_def)
  have f: "py_get hit_beatles ''artist'' (JStr ''Unknown'') = Inr (JStr ''The Beatles'')"
    by (simp add: hit_beatles_def)
  have g: "py_get hit_beatles ''name'' (JStr ''Unknown'') = Inr (JStr ''Yesterday'')"
    by (simp add: hit_beatles_def)
  have h: "acquired s_advanced = []" by (simp add: s_advanced_def s_empty_def)
  show ?thesis
    using advanced_download_query[OF a b, of env_two_hits "''Yesterday''" hit_beatles "[hit_boyz]"
            "''The Beatles''" "''Yesterday''" "''ann''"] c d f g h
    by simp
qed

text \<open>
  C8, as amended. \<^verbatim>\<open>search_track\<close> sends the limit to the provider as the request's
  \<^verbatim>\<open>limit\<close> parameter and returns the provider's track sequence as it is, in the
  provider's order and without truncating it: the result is within the limit only when
  the provider's answer is.
\<close>

theorem search_track_returns_provider_sequence:
  assumes "http_get e [(''method'', PStr ''track.search''), (''track'', PStr query),
                       (''api_key'', PStr (api_key e)), (''format'', PStr ''json''),
                       (''limit'', PInt limit)] = Inr (JDict d)"
      and "map_of d ''results'' = Some (JDict r)"
      and "map_of r ''trackmatches'' = Some (JDict tm)"
      and "map_of tm ''track'' = Some (JList ts)"
  shows "search_track e query limit = JList ts"
  using assms(1) search_track_try_found[OF assms(2,3,4)]
  by (simp add: search_track_def)

theorem search_track_returns_provider_sequence_witness:
  "search_track env_two_hits ''Yesterday'' 1 = JList [hit_beatles, hit_boyz]"
proof -
  have a: "http_get env_two_hits [(''method'', PStr ''track.search''), (''track'', PStr ''Yesterday''),
                       (''api_key'', PStr (api_key env_two_hits)), (''format'', PStr ''json''),
                       (''limit'', PInt 1)] =
           Inr (JDict [(''results'', JDict [(''trackmatches'', JDict [(''track'', JList [hit_beatles, hit_boyz])])])])"
    by (simp add: env_two_hits_def search_two_hits_def)
  show ?thesis
    using search_track_returns_provider_sequence[OF a,
            of "[(''trackmatches'', JDict [(''track'', JList [hit_beatles, hit_boyz])])]"
               "[(''track'', JList [hit_beatles, hit_boyz])]" "[hit_beatles, hit_boyz]"]
    by simp
qed

text \<open>
  The claim as stated (the result of a search never has more than \<open>limit\<close> elements)
  fails for a provider that answers a request of limit 1 with two tracks.
\<close>

theorem search_track_not_truncated:
  "\<not> (\<forall>e query limit ts. search_track e query limit = JList ts \<longrightarrow> int (length ts) \<le> limit)"
proof
  assume "\<forall>e query limit ts. search_track e query limit = JList ts \<longrightarrow> int (length ts) \<le> limit"
  then have "search_track env_two_hits ''Yesterday'' 1 = JList [hit_beatles, hit_boyz]
             \<longrightarrow> int (length [hit_beatles, hit_boyz]) \<le> 1"
    by blast
  then show False by (simp add: search_two_hits_result)
qed

text \<open>
  C6. A \<^verbatim>\<open>/similar\<close> whose argument text has no \<^verbatim>\<open>-\<close> (also with no arguments at all)
  is answered with the usage or format message and nothing else happens: no row of
  \<open>users\<close> changes, so no counter is incremented, and no promotional message is sent.
\<close>

theorem similar_without_dash_rejected:
  assumes "CHR ''-'' \<notin> set (join_space args)"
  shows "similar_command e uid args s =
           (Done, s\<lparr>outbox := outbox s @ [if args = [] then SimilarUsage else SimilarBadFormat]\<rparr>)"
  using assms by (simp add: similar_command_def send_def Let_def)

theorem similar_without_dash_rejected_witness:
  "similar_command env_offline 1 [''Coldplay'', ''Fix'', ''You''] s_advanced =
     (Done, s_advanced\<lparr>outbox := [SimilarBadFormat]\<rparr>)
   \<and> similar_command env_offline 1 [] s_advanced = (Done, s_advanced\<lparr>outbox := [SimilarUsage]\<rparr>)"
proof -
  have a: "CHR ''-'' \<notin> set (join_space [''Coldplay'', ''Fix'', ''You''])" by simp
  have b: "CHR ''-'' \<notin> set (join_space [])" by simp
  show ?thesis
    using similar_without_dash_rejected[OF a, of env_offline 1 s_advanced]
          similar_without_dash_rejected[OF b, of env_offline 1 s_advanced]
    by (simp add: s_advanced_def s_empty_def)
qed

text \<open>
  C9. \<^verbatim>\<open>increment_interaction\<close> is safe only when the user has a row. With a row it
  stores the incremented counter and returns the stored value, which is the old count
  plus one as long as the old count is a 64-bit integer below \<open>2^63 - 1\<close>. Without a row
  the SELECT finds nothing and the call raises TypeError instead of returning a count.
  \<^verbatim>\<open>similar_command\<close> calls it after its replies without creating the user first: for a
  well-formed argument whose listing does not raise, a user without a row gets both
  replies and then the TypeError, with no row created, while a user with a row gets the
  same replies, the incremented counter and the promotional check.
\<close>

theorem increment_interaction_needs_row:
  "(users s uid = Some r \<longrightarrow>
      increment_interaction s uid =
        Inr (sql_add_one (interaction_count r),
             s\<lparr>users := (users s)(uid \<mapsto> r\<lparr>interaction_count := sql_add_one (interaction_count r)\<rparr>)\<rparr>)
      \<and> (- (2 ^ 63) \<le> interaction_count r \<and> interaction_count r < 2 ^ 63 - 1 \<longrightarrow>
           sql_add_one (interaction_count r) = interaction_count r + 1))
   \<and> (users s uid = None \<longrightarrow> increment_interaction s uid = Inl TypeError)
   \<and> (CHR ''-'' \<in> set (join_space args) \<longrightarrow>
        (let artist = strip (split1 CHR ''-'' (join_space args) ! 0);
             track = strip (split1 CHR ''-'' (join_space args) ! 1);
             similar_tracks = get_similar_tracks e artist track 8
         in (\<forall>reply.
               (if py_truthy similar_tracks
                then (\<exists>ls. bnd (py_iter similar_tracks) similar_lines = Inr ls
                           \<and> reply = SimilarResults artist track ls)
                else reply = SimilarNotFound)
               \<longrightarrow>
               (users s uid = None \<longrightarrow>
                  similar_command e uid args s =
                    (Raised TypeError, s\<lparr>outbox := outbox s @ [SimilarSearching, reply]\<rparr>))
               \<and> (users s uid = Some r \<longrightarrow>
                  similar_command e uid args s =
                    (Done, show_ad e (sql_add_one (interaction_count r))
                       (s\<lparr>outbox := outbox s @ [SimilarSearching, reply],
                          users := (users s)(uid \<mapsto>
                                   r\<lparr>interaction_count := sql_add_one (interaction_count r)\<rparr>)\<rparr>))))))"
proof (intro conjI impI)
  assume "users s uid = Some r"
  then show "increment_interaction s uid =
        Inr (sql_add_one (interaction_count r),
             s\<lparr>users := (users s)(uid \<mapsto> r\<lparr>interaction_count := sql_add_one (interaction_count r)\<rparr>)\<rparr>)"
    by (simp add: increment_interaction_def Let_def)
next
  assume "- (2 ^ 63) \<le> interaction_count r \<and> interaction_count r < 2 ^ 63 - 1"
  then show "sql_add_one (interaction_count r) = interaction_count r + 1"
    by (simp add: sql_add_one_def)
next
  assume "users s uid = None"
  then show "increment_interaction s uid = Inl TypeError"
    by (simp add: increment_interaction_def Let_def)
next
  assume wf: "CHR ''-'' \<in> set (join_space args)"
  then have ne: "args \<noteq> []" by auto
  show "let artist = strip (split1 CHR ''-'' (join_space args) ! 0);
             track = strip (split1 CHR ''-'' (join_space args) ! 1);
             similar_tracks = get_similar_tracks e artist track 8
         in (\<forall>reply.
               (if py_truthy similar_tracks
                then (\<exists>ls. bnd (py_iter similar_tracks) similar_lines = Inr ls
                           \<and> reply = SimilarResults artist track ls)
                else reply = SimilarNotFound)
               \<longrightarrow>
               (users s uid = None \<longrightarrow>
                  similar_command e uid args s =
                    (Raised TypeError, s\<lparr>outbox := outbox s @ [SimilarSearching, reply]\<rparr>))
               \<and> (users s uid = Some r \<longrightarrow>
                  similar_command e uid args s =
                    (Done, show_ad e (sql_add_one (interaction_count r))
                       (s\<lparr>outbox := outbox s @ [SimilarSearching, reply],
                          users := (users s)(uid \<mapsto>
                                   r\<lparr>interaction_count := sql_add_one (interaction_count r)\<rparr>)\<rparr>))))"
    unfolding Let_def
  proof (intro allI impI conjI)
    fix reply
    let ?artist = "strip (split1 CHR ''-'' (join_space args) ! 0)"
    let ?track = "strip (split1 CHR ''-'' (join_space args) ! 1)"
    let ?st = "get_similar_tracks e ?artist ?track 8"
    assume h: "if py_truthy ?st
               then (\<exists>ls. bnd (py_iter ?st) similar_lines = Inr ls
                          \<and> reply = SimilarResults ?artist ?track ls)
               else reply = SimilarNotFound"
    have listing: "(if py_truthy ?st then
                       (case bnd (py_iter ?st) similar_lines of
                          Inl ex \<Rightarrow> Inl ex
                        | Inr ls \<Rightarrow> Inr (send (SimilarResults ?artist ?track ls) (send SimilarSearching s)))
                     else Inr (send SimilarNotFound (send SimilarSearching s)))
                   = Inr (s\<lparr>outbox := outbox s @ [SimilarSearching, reply]\<rparr>)"
      using h by (auto simp: send_def split: if_splits)
    have ne': "(args = []) = False" using ne by simp
    have wf': "(CHR ''-'' \<in> set (join_space args)) = True" using wf by simp
    let ?s2 = "s\<lparr>outbox := outbox s @ [SimilarSearching, reply]\<rparr>"
    have sc: "similar_command e uid args s =
                (case increment_interaction ?s2 uid of
                   Inl ex \<Rightarrow> (Raised ex, ?s2)
                 | Inr (n, s3) \<Rightarrow> (Done, show_ad e n s3))"
      unfolding similar_command_def Let_def
      by (simp only: ne' wf' listing if_False if_True sum.case)
    {
      assume "users s uid = None"
      then show "similar_command e uid args s =
                    (Raised TypeError, s\<lparr>outbox := outbox s @ [SimilarSearching, reply]\<rparr>)"
        by (simp add: sc increment_interaction_def Let_def)
    }
    {
      assume "users s uid = Some r"
      then show "similar_command e uid args s =
                    (Done, show_ad e (sql_add_one (interaction_count r))
                       (s\<lparr>outbox := outbox s @ [SimilarSearching, reply],
                          users := (users s)(uid \<mapsto>
                                   r\<lparr>interaction_count := sql_add_one (interaction_count r)\<rparr>)\<rparr>))"
        by (simp add: sc increment_interaction_def Let_def)
    }
  qed
qed

theorem increment_interaction_needs_row_witness:
  "increment_interaction s_basic 1 =
      Inr (1, s_basic\<lparr>users := [1 \<mapsto> row_basic\<lparr>interaction_count := 1\<rparr>]\<rparr>)
   \<and> increment_interaction s_empty 1 = Inl TypeError
   \<and> similar_command env_offline 1 [''Coldplay'', ''-'', ''Fix'', ''You''] s_empty =
        (Raised TypeError, s_empty\<lparr>outbox := [SimilarSearching, SimilarNotFound]\<rparr>)
   \<and> similar_command env_similar_one 1 [''Coldplay'', ''-'', ''Fix'', ''You''] s_empty =
        (Raised TypeError,
         s_empty\<lparr>outbox := [SimilarSearching,
                             SimilarResults ''Coldplay'' ''Fix You'' [(JStr ''Coldplay'', JStr ''Clocks'')]]\<rparr>)
   \<and> similar_command env_offline 1 [''Coldplay'', ''-'', ''Fix'', ''You''] s_basic =
        (Done, s_basic\<lparr>outbox := [SimilarSearching, SimilarNotFound],
                       users := [1 \<mapsto> row_basic\<lparr>interaction_count := 1\<rparr>]\<rparr>)"
proof -
  let ?args = "[''Coldplay'', ''-'', ''Fix'', ''You'']"
  have a: "users s_basic 1 = Some row_basic" by (simp add: s_basic_def s_empty_def)
  have b: "users s_empty 1 = None" by (simp add: s_empty_def)
  have c: "CHR ''-'' \<in> set (join_space ?args)" by simp
  have r: "- (2 ^ 63) \<le> interaction_count row_basic \<and> interaction_count row_basic < 2 ^ 63 - 1"
    by (simp add: row_basic_def)
  have artist: "strip (split1 CHR ''-'' ''Coldplay - Fix You'' ! 0) = ''Coldplay''"
    by (simp add: strip_def split1_def is_space_def)
  have track: "strip (split1 CHR ''-'' ''Coldplay - Fix You'' ! Suc 0) = ''Fix You''"
    by (simp add: strip_def split1_def is_space_def)
  have off: "get_similar_tracks env_offline ''Coldplay'' ''Fix You'' 8 = JList []"
    by (simp add: get_similar_tracks_def get_similar_tracks_try_def bnd_def env_offline_def)
  have one: "get_similar_tracks env_similar_one ''Coldplay'' ''Fix You'' 8 =
               JList [JDict [(''name'', JStr ''Clocks''), (''artist'', JDict [(''name'', JStr ''Coldplay'')])]]"
    by (simp add: get_similar_tracks_def get_similar_tracks_try_def bnd_def env_similar_one_def
          env_offline_def similar_one_def)
  have sa: "show_ad env_offline 1 st = st" for st
    by (simp add: show_ad_def should_show_ad_def)
  have w1: "increment_interaction s_basic 1 =
      Inr (1, s_basic\<lparr>users := [1 \<mapsto> row_basic\<lparr>interaction_count := 1\<rparr>]\<rparr>)"
    using increment_interaction_needs_row[of s_basic 1 row_basic ?args env_offline] a r
    by (simp add: s_basic_def s_empty_def row_basic_def)
  have w2: "increment_interaction s_empty 1 = Inl TypeError"
    using increment_interaction_needs_row[of s_empty 1 row_basic ?args env_offline] b
    by simp
  have w3: "similar_command env_offline 1 ?args s_empty =
        (Raised TypeError, s_empty\<lparr>outbox := [SimilarSearching, SimilarNotFound]\<rparr>)"
    using increment_interaction_needs_row[of s_empty 1 row_basic ?args env_offline] b c
    by (simp add: artist track off Let_def s_empty_def)
  have w4: "similar_command env_similar_one 1 ?args s_empty =
        (Raised TypeError,
         s_empty\<lparr>outbox := [SimilarSearching,
                             SimilarResults ''Coldplay'' ''Fix You'' [(JStr ''Coldplay'', JStr ''Clocks'')]]\<rparr>)"
    using increment_interaction_needs_row[of s_empty 1 row_basic ?args env_similar_one] b c
    by (simp add: artist track one Let_def bnd_def s_empty_def)
  have w5: "similar_command env_offline 1 ?args s_basic =
        (Done, s_basic\<lparr>outbox := [SimilarSearching, SimilarNotFound],
                       users := [1 \<mapsto> row_basic\<lparr>interaction_count := 1\<rparr>]\<rparr>)"
    using increment_interaction_needs_row[of s_basic 1 row_basic ?args env_offline] a c r
    by (simp add: artist track off Let_def sa s_basic_def s_empty_def row_basic_def)
  from w1 w2 w3 w4 w5 show ?thesis by simp
qed

text \<open>
  C10. Acquisition counts as successful only when \<^verbatim>\<open>download_audio\<close> returns a path and
  a file exists there. When the handler runs to its end having called \<^verbatim>\<open>download_audio\<close>
  with \<open>dq\<close>, the call returned the path \<open>p\<close>, and no file is at \<open>p\<close> (neither before the
  download nor written by it), the handler takes the failure branch: no history entry, the
  not-found message, no audio message, and the very same final state as with a
  \<^verbatim>\<open>download_audio\<close> that returns \<^verbatim>\<open>None\<close>.
\<close>

theorem missing_file_is_acquisition_failure:
  assumes "message_handler e uid name query s0 = (Done, sf)"
      and "acquired sf = acquired s0 @ [dq]"
      and "fst (download_audio e dq s0) = Some p"
      and "p \<notin> files s0 \<union> ydl_written e (''ytsearch1:'' @ dq)"
  shows "downloads sf = downloads s0
       \<and> NotFound \<in> set (outbox sf)
       \<and> (\<forall>a t pf. Audio a t pf \<in> set (outbox sf) \<longrightarrow> Audio a t pf \<in> set (outbox s0))
       \<and> message_handler (e\<lparr>ydl_prepare := \<lambda>target. Inl DownloadError\<rparr>) uid name query s0 = (Done, sf)"
proof -
  let ?e' = "e\<lparr>ydl_prepare := \<lambda>target. Inl DownloadError\<rparr>"
  from message_handler_Done[OF assms(1)] obtain n dq' sA where
    sf: "sf = show_ad e n (acquire_and_deliver e uid dq' sA)" and
    fr: "files sA = files s0" "downloads sA = downloads s0" "acquired sA = acquired s0" and
    ob: "\<forall>a t pf. Audio a t pf \<in> set (outbox sA) \<longrightarrow> Audio a t pf \<in> set (outbox s0)" and
    other_all: "\<forall>e'. http_get e' = http_get e \<and> api_key e' = api_key e \<and> py_str e' = py_str e
                  \<longrightarrow> message_handler e' uid name query s0 =
                        (Done, show_ad e' n (acquire_and_deliver e' uid dq' sA))"
    by blast
  have other: "message_handler ?e' uid name query s0 = (Done, show_ad ?e' n (acquire_and_deliver ?e' uid dq' sA))"
    using other_all[rule_format, of ?e'] by simp
  from assms(2) sf fr have dq: "dq' = dq"
    by (simp add: acquired_show_ad acquired_acquire_and_deliver)
  let ?s1 = "snd (download_audio e dq sA)"
  have p: "fst (download_audio e dq sA) = Some p"
    using assms(3) by (simp add: download_audio_fst)
  have nf: "p \<notin> files ?s1"
    using assms(4) fr by (simp add: download_audio_snd)
  have ad: "acquire_and_deliver e uid dq sA = send NotFound ?s1"
    by (rule acquire_missing[OF p nf])
  have "fst (download_audio ?e' dq sA) = None"
    by (simp add: download_audio_fst)
  then have "acquire_and_deliver ?e' uid dq sA = send NotFound (snd (download_audio ?e' dq sA))"
    by (rule acquire_absent)
  moreover have "snd (download_audio ?e' dq sA) = ?s1"
    by (simp add: download_audio_snd)
  ultimately have ad': "acquire_and_deliver ?e' uid dq sA = acquire_and_deliver e uid dq sA"
    using ad by simp
  have same: "message_handler ?e' uid name query s0 = (Done, sf)"
    using other ad' dq sf show_ad_cong[of ?e' e] by simp
  have sfx: "sf = show_ad e n (send NotFound ?s1)" using sf dq ad by simp
  have d: "downloads sf = downloads s0"
    using sfx fr by (simp add: downloads_show_ad send_def download_audio_snd)
  have nfm: "NotFound \<in> set (outbox sf)"
    using sfx by (simp add: show_ad_def send_def)
  have au: "Audio a t pf \<in> set (outbox s0)" if "Audio a t pf \<in> set (outbox sf)" for a t pf
  proof -
    have "random_choice e AD_MESSAGES \<noteq> Audio a t pf"
      using audio_not_ad by simp
    with that sfx have "Audio a t pf \<in> set (outbox sA)"
      by (auto simp: show_ad_def send_def download_audio_snd split: if_splits)
    with ob show ?thesis by blast
  qed
  from d nfm au same show ?thesis by blast
qed

theorem missing_file_is_acquisition_failure_witness:
  "message_handler env_no_file 1 ''ann'' ''Yesterday'' s_basic = (Done, sf_no_file)
   \<and> fst (download_audio env_no_file ''Yesterday'' s_basic) = Some ''/tmp/song.mp3''
   \<and> ''/tmp/song.mp3'' \<notin> files s_basic \<union> ydl_written env_no_file ''ytsearch1:Yesterday''
   \<and> downloads sf_no_file = downloads s_basic
   \<and> NotFound \<in> set (outbox sf_no_file)
   \<and> message_handler (env_no_file\<lparr>ydl_prepare := \<lambda>target. Inl DownloadError\<rparr>) 1 ''ann'' ''Yesterday'' s_basic
       = (Done, sf_no_file)"
proof -
  have a: "acquired sf_no_file = acquired s_basic @ [''Yesterday'']"
    by (simp add: sf_no_file_def s_basic_def s_empty_def)
  have b: "fst (download_audio env_no_file ''Yesterday'' s_basic) = Some ''/tmp/song.mp3''"
    by (simp add: download_audio_def rsplit1_head_def env_no_file_def env_offline_def)
  have c: "''/tmp/song.mp3'' \<notin> files s_basic \<union> ydl_written env_no_file (''ytsearch1:'' @ ''Yesterday'')"
    by (simp add: env_no_file_def env_offline_def s_basic_def s_empty_def)
  show ?thesis
    using missing_file_is_acquisition_failure[OF run_no_file a b c] run_no_file b c
    by simp
qed

text \<open>
  C7, as amended. On every successful delivery the history entry is derived from the
  download query by splitting it at its first space character: the text before that
  space is the artist and the text after it the title; a query without a space is both
  the artist and the title (the \<^verbatim>\<open>Unknown\<close> default is never taken). In basic mode, and
  for a user who had no row, the download query is the text of the message.
\<close>

theorem history_entry_splits_at_first_space:
  assumes "message_handler e uid name query s0 = (Done, sf)"
      and "acquired sf = acquired s0 @ [dq]"
      and "fst (download_audio e dq s0) = Some p"
      and "p \<in> files s0 \<union> ydl_written e (''ytsearch1:'' @ dq)"
      and "audio_send e p"
  shows "(\<exists>artist title. downloads sf = downloads s0 @ [(uid, title, artist)]
            \<and> CHR '' '' \<notin> set artist
            \<and> (if CHR '' '' \<in> set dq then dq = artist @ '' '' @ title
                else artist = dq \<and> title = dq))
       \<and> ((case users s0 uid of None \<Rightarrow> True | Some r \<Rightarrow> mode r \<noteq> ''advanced'') \<longrightarrow> dq = query)"
proof -
  from message_handler_Done[OF assms(1)] obtain n dq' sA where
    sf: "sf = show_ad e n (acquire_and_deliver e uid dq' sA)" and
    fr: "files sA = files s0" "downloads sA = downloads s0" "acquired sA = acquired s0" and
    basic: "(case users s0 uid of None \<Rightarrow> True | Some r \<Rightarrow> mode r \<noteq> ''advanced'') \<longrightarrow> dq' = query"
    by blast
  from assms(2) sf fr have dq: "dq' = dq"
    by (simp add: acquired_show_ad acquired_acquire_and_deliver)
  let ?s1 = "snd (download_audio e dq sA)"
  let ?parts = "split1 CHR '' '' dq"
  have p: "fst (download_audio e dq sA) = Some p"
    using assms(3) by (simp add: download_audio_fst)
  then have ne: "p \<noteq> []"
    by (auto simp: download_audio_fst split: sum.splits)
  have ex: "p \<in> files ?s1"
    using assms(4) fr by (simp add: download_audio_snd)
  have "downloads (acquire_and_deliver e uid dq sA) =
          downloads s0 @ [(uid, if length ?parts > 1 then ?parts ! 1 else dq, ?parts ! 0)]"
    using acquire_delivered[OF p ne ex assms(5), of uid] fr
    by (simp add: Let_def download_audio_snd)
  then have d: "downloads sf =
          downloads s0 @ [(uid, if length ?parts > 1 then ?parts ! 1 else dq, ?parts ! 0)]"
    using sf dq by (simp add: downloads_show_ad)
  have sp: "CHR '' '' \<notin> set (?parts ! 0)
            \<and> (if CHR '' '' \<in> set dq
                then dq = ?parts ! 0 @ '' '' @ (if length ?parts > 1 then ?parts ! 1 else dq)
                else ?parts ! 0 = dq \<and> (if length ?parts > 1 then ?parts ! 1 else dq) = dq)"
    using split1_space[of dq] by (auto split: if_splits)
  from d sp basic dq show ?thesis by blast
qed

theorem history_entry_splits_at_first_space_witness:
  "message_handler env_download 1 ''ann'' ''Imagine Dragons Believer'' s_basic = (Done, sf_believer)
   \<and> fst (download_audio env_download ''Imagine Dragons Believer'' s_basic) = Some ''/tmp/song.mp3''
   \<and> audio_send env_download ''/tmp/song.mp3''
   \<and> downloads sf_believer = [(1, ''Dragons Believer'', ''Imagine'')]
   \<and> acquired sf_believer = [''Imagine Dragons Believer'']
   \<and> (\<exists>artist title. downloads sf_believer = downloads s_basic @ [(1, title, artist)]
         \<and> CHR '' '' \<notin> set artist \<and> ''Imagine Dragons Believer'' = artist @ '' '' @ title)"
proof -
  have a: "acquired sf_believer = acquired s_basic @ [''Imagine Dragons Believer'']"
    by (simp add: sf_believer_def s_basic_def s_empty_def)
  have b: "fst (download_audio env_download ''Imagine Dragons Believer'' s_basic) = Some ''/tmp/song.mp3''"
    by (simp add: download_audio_def rsplit1_head_def env_download_def env_offline_def)
  have c: "''/tmp/song.mp3'' \<in> files s_basic \<union> ydl_written env_download (''ytsearch1:'' @ ''Imagine Dragons Believer'')"
    by (simp add: env_download_def env_offline_def)
  have d: "audio_send env_download ''/tmp/song.mp3''"
    by (simp add: env_download_def env_offline_def)
  have f: "downloads sf_believer = [(1, ''Dragons Believer'', ''Imagine'')]"
    by (simp add: sf_believer_def)
  show ?thesis
    using history_entry_splits_at_first_space[OF run_believer a b c d] run_believer a b d f
    by (simp add: s_basic_def s_empty_def)
qed

text \<open>
  The claim as stated speaks of a whitespace split. A message of two lines, sent in basic
  mode, has no space: the code stores the whole text as artist and as title, where the
  whitespace rule gives the first line as artist and the second as title.
\<close>

theorem history_entry_not_whitespace_split:
  "downloads (snd (message_handler env_download 1 ''ann'' two_lines s_basic)) = [(1, two_lines, two_lines)]
   \<and> spec_whitespace_split two_lines = (''Imagine'', ''Dragons'')
   \<and> (1, snd (spec_whitespace_split two_lines), fst (spec_whitespace_split two_lines))
        \<notin> set (downloads (snd (message_handler env_download 1 ''ann'' two_lines s_basic)))"
proof -
  have a: "spec_whitespace_split two_lines = (''Imagine'', ''Dragons'')"
    by (simp add: spec_whitespace_split_def two_lines_def is_space_def)
  have b: "two_lines \<noteq> ''Imagine''" by (simp add: two_lines_def)
  show ?thesis using a b by (simp add: run_two_lines)
qed

text \<open>
  C2. The claim: every well-formed \<^verbatim>\<open>/similar\<close> increments the user's counter once and
  runs the promotional check. The code at a user without a row (one who never sent
  \<^verbatim>\<open>/start\<close> or a text): the replies are sent, \<^verbatim>\<open>increment_interaction\<close> raises
  TypeError, no counter exists or changes, and the promotional check is not reached.
\<close>

theorem similar_unknown_user_not_counted:
  "similar_command env_offline 7 [''Coldplay'', ''-'', ''Fix'', ''You''] s_empty =
     (Raised TypeError, s_empty\<lparr>outbox := [SimilarSearching, SimilarNotFound]\<rparr>)
   \<and> users s_empty 7 = None"
  by (simp add: handler_defs env_offline_def s_empty_def strip_def is_space_def)

text \<open>
  C3. The claim: the downloaded file is removed whether the send succeeds or raises. The
  code when the send raises: the handler reports the delivery error and ends with the
  file still in the scratch directory, since \<^verbatim>\<open>os.remove\<close> is inside the \<^verbatim>\<open>try\<close> block
  after the send.
\<close>

theorem artifact_left_when_send_fails:
  "message_handler env_send_fails 1 ''ann'' ''Yesterday'' s_basic = (Done, sf_send_fails)
   \<and> ''/tmp/song.mp3'' \<in> files sf_send_fails
   \<and> SendFailed \<in> set (outbox sf_send_fails)"
  by (simp add: run_send_fails) (simp add: sf_send_fails_def)

text \<open>
  C4. The claim: all three client methods turn a single track object into a one-element
  sequence. The code of \<^verbatim>\<open>get_top_tracks\<close> has no \<^verbatim>\<open>isinstance\<close> test: for a chart answer
  whose \<^verbatim>\<open>track\<close> field is one object it returns that object, not a list.
\<close>

theorem get_top_tracks_single_object_not_normalized:
  "get_top_tracks env_top_single 10 =
     JDict [(''name'', JStr ''Yesterday''), (''artist'', JDict [(''name'', JStr ''The Beatles'')])]
   \<and> \<not> (\<exists>xs. get_top_tracks env_top_single 10 = JList xs)"
  by (simp add: get_top_tracks_def get_top_tracks_try_def bnd_def env_top_single_def env_offline_def
        top_single_def)

end
